theory Spec2Isabelle
  imports Complex_Main "HOL-Library.AList"
begin

section \<open>Python values shared by the three components\<close>

text \<open>
  Exceptions of the Python runtime that the modelled code can raise or catch.
  \<open>Queue_Full\<close> and \<open>Queue_Empty\<close> are \<open>queue.Full\<close> and \<open>queue.Empty\<close>;
  \<open>SendError\<close> stands for whatever \<open>WebSocket.send_text\<close> raises on a closed
  transport.
\<close>

datatype py_error = Queue_Full | Queue_Empty | KeyError | IndexError | ValueError | SendError

section \<open>broker/queue/MessageQueue.py\<close>

subsection \<open>class Message\<close>

text \<open>
  \<open>Message.__init__\<close> reads two things from the environment: \<open>uuid.uuid4()\<close> and
  \<open>time.time()\<close>. Both are arguments of the model. Time is a real number of seconds.
\<close>

record Message =
  msg_id :: string
  content :: string
  priority :: int
  timestamp :: real
  acknowledged :: bool

definition Message_init :: "string \<Rightarrow> real \<Rightarrow> string \<Rightarrow> int \<Rightarrow> Message" where
  "Message_init uuid now c p =
     \<lparr>msg_id = uuid, content = c, priority = p, timestamp = now, acknowledged = False\<rparr>"

definition Message_acknowledge :: "Message \<Rightarrow> Message" where
  "Message_acknowledge m = m\<lparr>acknowledged := True\<rparr>"

subsection \<open>class MessageQueue\<close>

text \<open>
  Message objects are mutable and shared by reference between the queue, the pending
  dictionary and the caller, so the state holds an object store: \<open>store\<close> lists every
  Message allocated so far and a reference is an index into it. \<open>queue\<close> is the content
  of the \<open>queue.Queue\<close>, head first, \<open>maxsize\<close> its bound (\<open>maxsize \<le> 0\<close> means
  unbounded in Python). \<open>pending_ack\<close> is the dict, as an association list in insertion
  order. The lock and the daemon thread are not part of the sequential model.
\<close>

record MessageQueue =
  store :: "Message list"
  queue :: "nat list"
  maxsize :: int
  pending_ack :: "(string \<times> nat) list"
  ack_timeout :: real

definition MessageQueue_init :: "int \<Rightarrow> MessageQueue" where
  "MessageQueue_init max_size =
     \<lparr>store = [], queue = [], maxsize = max_size, pending_ack = [], ack_timeout = 30\<rparr>"

text \<open>\<open>Queue.put_nowait\<close>: raises \<open>Full\<close> when a positive bound is reached.\<close>

definition put_nowait :: "nat \<Rightarrow> MessageQueue \<Rightarrow> py_error + MessageQueue" where
  "put_nowait r s =
     (if 0 < maxsize s \<and> maxsize s \<le> int (length (queue s)) then Inl Queue_Full
      else Inr (s\<lparr>queue := queue s @ [r]\<rparr>))"

text \<open>
  \<open>Queue.get(timeout=1)\<close>: with no other thread adding an item during the wait, an
  empty queue raises \<open>Empty\<close>; otherwise the head is removed and returned.
\<close>

definition get_timeout :: "MessageQueue \<Rightarrow> py_error + (nat \<times> MessageQueue)" where
  "get_timeout s =
     (case queue s of
        [] \<Rightarrow> Inl Queue_Empty
      | r # rs \<Rightarrow> Inr (r, s\<lparr>queue := rs\<rparr>))"

text \<open>\<open>dict.pop(key)\<close> without a default: \<open>KeyError\<close> on a missing key.\<close>

definition dict_pop :: "'k \<Rightarrow> ('k \<times> 'v) list \<Rightarrow> py_error + ('v \<times> ('k \<times> 'v) list)" where
  "dict_pop k d =
     (case map_of d k of
        None \<Rightarrow> Inl KeyError
      | Some v \<Rightarrow> Inr (v, AList.delete k d))"

text \<open>
  \<open>enqueue\<close> builds the Message first, then tries \<open>put_nowait\<close>; the bare
  \<open>except\<close> swallows \<open>Full\<close> and the Message is returned on both paths. The result
  is the outcome seen by the caller (a reference, never an exception) and the new state.
\<close>

definition enqueue ::
  "string \<Rightarrow> real \<Rightarrow> string \<Rightarrow> int \<Rightarrow> MessageQueue \<Rightarrow> (py_error + nat) \<times> MessageQueue" where
  "enqueue uuid now c p s =
     (let message = length (store s);
          s1 = s\<lparr>store := store s @ [Message_init uuid now c p]\<rparr>
      in case put_nowait message s1 of
           Inr s2 \<Rightarrow> (Inr message, s2)
         | Inl e \<Rightarrow> (Inr message, s1))"

text \<open>\<open>dequeue\<close> returns \<open>None\<close> on \<open>Empty\<close>; it does not read the clock.\<close>

definition dequeue :: "MessageQueue \<Rightarrow> nat option \<times> MessageQueue" where
  "dequeue s =
     (case get_timeout s of
        Inl e \<Rightarrow> (None, s)
      | Inr (message, s1) \<Rightarrow>
          (Some message,
           s1\<lparr>pending_ack := AList.update (msg_id (store s1 ! message)) message (pending_ack s1)\<rparr>))"

definition acknowledge :: "string \<Rightarrow> MessageQueue \<Rightarrow> (py_error + bool) \<times> MessageQueue" where
  "acknowledge message_id s =
     (if message_id \<in> fst ` set (pending_ack s) then
        (case dict_pop message_id (pending_ack s) of
           Inl e \<Rightarrow> (Inl e, s)
         | Inr (message, d) \<Rightarrow>
             (Inr True,
              s\<lparr>pending_ack := d,
                store := (store s)[message := Message_acknowledge (store s ! message)]\<rparr>))
      else (Inr False, s))"

text \<open>
  The loop of \<open>requeue_unacknowledged\<close> over the snapshot
  \<open>list(self.pending_ack.items())\<close>. An exception of \<open>pop\<close> or \<open>put_nowait\<close> leaves
  the loop at once, with the state as mutated so far.
\<close>

fun requeue_loop ::
  "real \<Rightarrow> (string \<times> nat) list \<Rightarrow> MessageQueue \<Rightarrow> (py_error + unit) \<times> MessageQueue" where
  "requeue_loop now [] s = (Inr (), s)"
| "requeue_loop now ((message_id, message) # items) s =
     (if \<not> acknowledged (store s ! message)
         \<and> now - timestamp (store s ! message) > ack_timeout s then
        (case dict_pop message_id (pending_ack s) of
           Inl e \<Rightarrow> (Inl e, s)
         | Inr (m, d) \<Rightarrow>
             (let s1 = s\<lparr>pending_ack := d\<rparr>
              in case put_nowait message s1 of
                   Inl e \<Rightarrow> (Inl e, s1)
                 | Inr s2 \<Rightarrow> requeue_loop now items s2))
      else requeue_loop now items s)"

definition requeue_unacknowledged ::
  "real \<Rightarrow> MessageQueue \<Rightarrow> (py_error + unit) \<times> MessageQueue" where
  "requeue_unacknowledged now s = requeue_loop now (pending_ack s) s"

definition get_queue_size :: "MessageQueue \<Rightarrow> nat" where
  "get_queue_size s = length (queue s)"

definition get_pending_ack_size :: "MessageQueue \<Rightarrow> nat" where
  "get_pending_ack_size s = length (pending_ack s)"

text \<open>
  Sequential use of one queue: the calls a client or the reaper can make, each with the
  values it reads from the environment.
\<close>

datatype mq_call =
    Enqueue string real string int
  | Dequeue
  | Acknowledge string
  | Requeue real

fun mq_step :: "MessageQueue \<Rightarrow> mq_call \<Rightarrow> MessageQueue" where
  "mq_step s (Enqueue uuid now c p) = snd (enqueue uuid now c p s)"
| "mq_step s Dequeue = snd (dequeue s)"
| "mq_step s (Acknowledge message_id) = snd (acknowledge message_id s)"
| "mq_step s (Requeue now) = snd (requeue_unacknowledged now s)"

definition mq_run :: "MessageQueue \<Rightarrow> mq_call list \<Rightarrow> MessageQueue" where
  "mq_run s calls = foldl mq_step s calls"

text \<open>The identifiers that \<open>uuid.uuid4()\<close> hands out in a run, in order.\<close>

fun uuids_of :: "mq_call list \<Rightarrow> string list" where
  "uuids_of [] = []"
| "uuids_of (Enqueue uuid now c p # calls) = uuid # uuids_of calls"
| "uuids_of (call # calls) = uuids_of calls"

text \<open>
  The pending entries that \<open>requeue_unacknowledged\<close> moves at time \<open>now\<close>: the test
  of its loop, which reads the Message's own \<open>timestamp\<close>.
\<close>

definition expired :: "real \<Rightarrow> MessageQueue \<Rightarrow> string \<times> nat \<Rightarrow> bool" where
  "expired now s e =
     (\<not> acknowledged (store s ! snd e) \<and> now - timestamp (store s ! snd e) > ack_timeout s)"

subsection \<open>The acknowledged queue as the specification words it\<close>

text \<open>
  The specification's pending index maps an id to the envelope and the time of its
  dequeue, and its reaper compares \<open>now - dequeue_time\<close> with \<open>ack_timeout\<close>. These
  definitions follow that wording: the code's state paired with the dequeue stamps.
\<close>

type_synonym stamped_queue = "MessageQueue \<times> (string \<times> real) list"

definition spec_dequeue :: "real \<Rightarrow> stamped_queue \<Rightarrow> nat option \<times> stamped_queue" where
  "spec_dequeue now sq =
     (case dequeue (fst sq) of
        (None, s) \<Rightarrow> (None, (s, snd sq))
      | (Some message, s) \<Rightarrow>
          (Some message, (s, AList.update (msg_id (store s ! message)) now (snd sq))))"

definition spec_expired :: "real \<Rightarrow> stamped_queue \<Rightarrow> string \<times> nat \<Rightarrow> bool" where
  "spec_expired now sq e =
     (case map_of (snd sq) (fst e) of
        None \<Rightarrow> False
      | Some dequeue_time \<Rightarrow> now - dequeue_time > ack_timeout (fst sq))"

definition spec_requeue_unacknowledged :: "real \<Rightarrow> stamped_queue \<Rightarrow> stamped_queue" where
  "spec_requeue_unacknowledged now sq =
     (let s = fst sq; moved = filter (spec_expired now sq) (pending_ack s)
      in (s\<lparr>pending_ack := filter (\<lambda>e. \<not> spec_expired now sq e) (pending_ack s),
            queue := queue s @ map snd moved\<rparr>,
          filter (\<lambda>(k, t). k \<notin> fst ` set moved) (snd sq)))"

section \<open>broker/queue/PriorityQueue.py\<close>

subsection \<open>The heap entries and their order\<close>

text \<open>
  An entry is the tuple \<open>(priority, counter, message)\<close>. Python compares tuples
  lexicographically, so \<open>a < b\<close> is decided by the priorities, then by the counters;
  only when both agree would the two messages be compared. \<open>item_lt\<close> is that
  comparison on the first two components.
\<close>

type_synonym 'a item = "int \<times> nat \<times> 'a"

definition item_lt :: "'a item \<Rightarrow> 'a item \<Rightarrow> bool" where
  "item_lt a b =
     (fst a < fst b \<or> (fst a = fst b \<and> fst (snd a) < fst (snd b)))"

definition item_le :: "'a item \<Rightarrow> 'a item \<Rightarrow> bool" where
  "item_le a b = (\<not> item_lt b a)"

subsection \<open>heapq: heappush and heappop on a list\<close>

text \<open>
  The two functions of Python's \<open>heapq\<close> module that the class calls, with their
  helpers \<open>_siftdown\<close> and \<open>_siftup\<close>, on the list as an array. Each \<open>while\<close> loop
  is a recursive function on the loop variables.
\<close>

function siftdown_loop :: "'a item list \<Rightarrow> nat \<Rightarrow> nat \<Rightarrow> 'a item \<Rightarrow> 'a item list" where
  "siftdown_loop heap startpos pos newitem =
     (if pos > startpos then
        (let parentpos = (pos - 1) div 2;
             parent = heap ! parentpos
         in if item_lt newitem parent
            then siftdown_loop (heap[pos := parent]) startpos parentpos newitem
            else heap[pos := newitem])
      else heap[pos := newitem])"
  by pat_completeness auto
termination
  by (relation "measure (\<lambda>(heap, startpos, pos, newitem). pos)") auto

definition siftdown :: "'a item list \<Rightarrow> nat \<Rightarrow> nat \<Rightarrow> 'a item list" where
  "siftdown heap startpos pos = siftdown_loop heap startpos pos (heap ! pos)"

function siftup_loop :: "'a item list \<Rightarrow> nat \<Rightarrow> nat \<Rightarrow> 'a item list \<times> nat" where
  "siftup_loop heap endpos pos =
     (let childpos = 2 * pos + 1
      in if childpos < endpos then
           (let rightpos = childpos + 1;
                childpos =
                  (if rightpos < endpos \<and> \<not> item_lt (heap ! childpos) (heap ! rightpos)
                   then rightpos else childpos)
            in siftup_loop (heap[pos := heap ! childpos]) endpos childpos)
         else (heap, pos))"
  by pat_completeness auto
termination
  by (relation "measure (\<lambda>(heap, endpos, pos). endpos - pos)") (auto simp: Let_def)

definition siftup :: "'a item list \<Rightarrow> nat \<Rightarrow> 'a item list" where
  "siftup heap pos =
     (let newitem = heap ! pos;
          (heap1, pos1) = siftup_loop heap (length heap) pos
      in siftdown (heap1[pos1 := newitem]) pos pos1)"

definition heappush :: "'a item list \<Rightarrow> 'a item \<Rightarrow> 'a item list" where
  "heappush heap item = siftdown (heap @ [item]) 0 (length heap)"

text \<open>\<open>heap.pop()\<close> on the empty list raises \<open>IndexError\<close>.\<close>

definition heappop :: "'a item list \<Rightarrow> py_error + ('a item \<times> 'a item list)" where
  "heappop heap =
     (if heap = [] then Inl IndexError
      else (let lastelt = last heap; heap1 = butlast heap
            in if heap1 \<noteq> [] then Inr (heap1 ! 0, siftup (heap1[0 := lastelt]) 0)
               else Inr (lastelt, heap1)))"

subsection \<open>class PriorityQueue\<close>

record 'a PriorityQueue =
  pq_queue :: "'a item list"
  counter :: nat

definition PriorityQueue_init :: "'a PriorityQueue" where
  "PriorityQueue_init = \<lparr>pq_queue = [], counter = 0\<rparr>"

definition is_empty :: "'a PriorityQueue \<Rightarrow> bool" where
  "is_empty pq = (length (pq_queue pq) = 0)"

definition pq_enqueue :: "int \<Rightarrow> 'a \<Rightarrow> 'a PriorityQueue \<Rightarrow> 'a PriorityQueue" where
  "pq_enqueue p message pq =
     pq\<lparr>pq_queue := heappush (pq_queue pq) (p, counter pq, message),
        counter := counter pq + 1\<rparr>"

text \<open>\<open>dequeue\<close> returns the popped tuple without its priority: \<open>(counter, message)\<close>.\<close>

definition pq_dequeue :: "'a PriorityQueue \<Rightarrow> (py_error + (nat \<times> 'a)) \<times> 'a PriorityQueue" where
  "pq_dequeue pq =
     (if is_empty pq then (Inl IndexError, pq)
      else (case heappop (pq_queue pq) of
              Inl e \<Rightarrow> (Inl e, pq)
            | Inr (item, heap) \<Rightarrow> (Inr (snd item), pq\<lparr>pq_queue := heap\<rparr>)))"

definition peek :: "'a PriorityQueue \<Rightarrow> 'a option" where
  "peek pq = (if is_empty pq then None else Some (snd (snd (pq_queue pq ! 0))))"

definition pq_size :: "'a PriorityQueue \<Rightarrow> nat" where
  "pq_size pq = length (pq_queue pq)"

definition clear :: "'a PriorityQueue \<Rightarrow> 'a PriorityQueue" where
  "clear pq = pq\<lparr>pq_queue := [], counter := 0\<rparr>"

datatype 'a pq_call = PQ_Enqueue int 'a | PQ_Dequeue | PQ_Clear

fun pq_step :: "'a PriorityQueue \<Rightarrow> 'a pq_call \<Rightarrow> 'a PriorityQueue" where
  "pq_step pq (PQ_Enqueue p message) = pq_enqueue p message pq"
| "pq_step pq PQ_Dequeue = snd (pq_dequeue pq)"
| "pq_step pq PQ_Clear = clear pq"

definition pq_run :: "'a pq_call list \<Rightarrow> 'a PriorityQueue" where
  "pq_run calls = foldl pq_step PriorityQueue_init calls"

text \<open>
  The heap condition of \<open>heapq\<close> (\<open>heap[k] <= heap[2*k+1]\<close> and
  \<open>heap[k] <= heap[2*k+2]\<close>), written from the child to its parent.
\<close>

definition is_heap :: "'a item list \<Rightarrow> bool" where
  "is_heap heap = (\<forall>i\<in>{1..<length heap}. item_le (heap ! ((i - 1) div 2)) (heap ! i))"

text \<open>
  What the class keeps true of its fields: the list is a heap, every counter in it was
  handed out before the current one, and no counter occurs twice.
\<close>

definition pq_inv :: "'a PriorityQueue \<Rightarrow> bool" where
  "pq_inv pq =
     (is_heap (pq_queue pq)
      \<and> (\<forall>x\<in>set (pq_queue pq). fst (snd x) < counter pq)
      \<and> distinct (map (\<lambda>x. fst (snd x)) (pq_queue pq)))"

section \<open>api/websocket_gateway/ConnectionManager.py\<close>

text \<open>
  A WebSocket is an opaque handle (a number). Both fields are \<open>defaultdict(list)\<close>,
  kept as association lists in insertion order. \<open>dd_getitem\<close> is
  \<open>defaultdict.__getitem__\<close>: a missing key is inserted with the empty list before it is
  returned. \<open>dict_get\<close> is \<open>d.get(key, [])\<close>, which inserts nothing. \<open>list_remove\<close> is
  \<open>list.remove\<close>: the first occurrence goes, \<open>ValueError\<close> when there is none.
\<close>

record ConnectionManager =
  active_connections :: "(string \<times> nat list) list"
  user_rooms :: "(string \<times> string list) list"

definition ConnectionManager_init :: ConnectionManager where
  "ConnectionManager_init = \<lparr>active_connections = [], user_rooms = []\<rparr>"

definition dd_getitem :: "'k \<Rightarrow> ('k \<times> 'v list) list \<Rightarrow> 'v list \<times> ('k \<times> 'v list) list" where
  "dd_getitem k d =
     (case map_of d k of
        Some v \<Rightarrow> (v, d)
      | None \<Rightarrow> ([], AList.update k [] d))"

definition dict_get :: "'k \<Rightarrow> ('k \<times> 'v list) list \<Rightarrow> 'v list" where
  "dict_get k d = (case map_of d k of Some v \<Rightarrow> v | None \<Rightarrow> [])"

definition list_remove :: "'a \<Rightarrow> 'a list \<Rightarrow> py_error + 'a list" where
  "list_remove x xs = (if x \<in> set xs then Inr (remove1 x xs) else Inl ValueError)"

text \<open>\<open>connect\<close>, with \<open>websocket.accept()\<close> taken to succeed.\<close>

definition connect :: "nat \<Rightarrow> string \<Rightarrow> string \<Rightarrow> ConnectionManager \<Rightarrow> ConnectionManager" where
  "connect websocket room user_id cm =
     (let (conns, ac) = dd_getitem room (active_connections cm);
          (rooms, ur) = dd_getitem user_id (user_rooms cm)
      in cm\<lparr>active_connections := AList.update room (conns @ [websocket]) ac,
            user_rooms := AList.update user_id (rooms @ [room]) ur\<rparr>)"

text \<open>
  \<open>disconnect\<close>, statement by statement. The membership test indexes the defaultdict,
  so it may insert. The final \<open>remove\<close> is not guarded; when it raises, the mutations
  made before it stay.
\<close>

definition disconnect ::
  "nat \<Rightarrow> string \<Rightarrow> string \<Rightarrow> ConnectionManager \<Rightarrow> (py_error + unit) \<times> ConnectionManager" where
  "disconnect websocket room user_id cm =
     (let (conns, ac0) = dd_getitem room (active_connections cm);
          ac1 = (if websocket \<in> set conns then
                   (let conns1 = remove1 websocket conns;
                        ac = AList.update room conns1 ac0
                    in if conns1 = [] then AList.delete room ac else ac)
                 else ac0);
          (rooms, ur0) = dd_getitem user_id (user_rooms cm)
      in case list_remove room rooms of
           Inl e \<Rightarrow> (Inl e, cm\<lparr>active_connections := ac1, user_rooms := ur0\<rparr>)
         | Inr rooms1 \<Rightarrow>
             (Inr (), cm\<lparr>active_connections := ac1,
                         user_rooms := AList.update user_id rooms1 ur0\<rparr>))"

text \<open>
  \<open>broadcast\<close>. \<open>send_text\<close> is the transport: it says, for a handle and a text, whether
  the send returns or raises. The loop has no \<open>try\<close>, so the first exception leaves it.
  The result is the outcome of the call and the handles \<open>send_text\<close> was called on.
\<close>

fun broadcast_loop ::
  "(nat \<Rightarrow> string \<Rightarrow> py_error + unit) \<Rightarrow> string \<Rightarrow> nat list \<Rightarrow> (py_error + unit) \<times> nat list" where
  "broadcast_loop send_text message [] = (Inr (), [])"
| "broadcast_loop send_text message (connection # connections) =
     (case send_text connection message of
        Inl e \<Rightarrow> (Inl e, [connection])
      | Inr u \<Rightarrow>
          (case broadcast_loop send_text message connections of
             (r, attempted) \<Rightarrow> (r, connection # attempted)))"

definition broadcast ::
  "(nat \<Rightarrow> string \<Rightarrow> py_error + unit) \<Rightarrow> string \<Rightarrow> string \<Rightarrow> ConnectionManager
     \<Rightarrow> (py_error + unit) \<times> nat list" where
  "broadcast send_text message room cm =
     broadcast_loop send_text message (dict_get room (active_connections cm))"

text \<open>
  The inner loop of \<open>ping_clients\<close>, for one room: here every send sits in its own
  \<open>try\<close>/\<open>except\<close>, so the loop always reaches the end of the list.
\<close>

fun ping_loop :: "(nat \<Rightarrow> string \<Rightarrow> py_error + unit) \<Rightarrow> nat list \<Rightarrow> (py_error + unit) \<times> nat list" where
  "ping_loop send_text [] = (Inr (), [])"
| "ping_loop send_text (websocket # connections) =
     (case send_text websocket ''ping'' of
        Inl e \<Rightarrow>
          (case ping_loop send_text connections of
             (r, attempted) \<Rightarrow> (r, websocket # attempted))
      | Inr u \<Rightarrow>
          (case ping_loop send_text connections of
             (r, attempted) \<Rightarrow> (r, websocket # attempted)))"

definition get_rooms_for_user :: "string \<Rightarrow> ConnectionManager \<Rightarrow> string list" where
  "get_rooms_for_user user_id cm = dict_get user_id (user_rooms cm)"

definition get_connections_for_room :: "string \<Rightarrow> ConnectionManager \<Rightarrow> nat list" where
  "get_connections_for_room room cm = dict_get room (active_connections cm)"

section \<open>What the acknowledged queue keeps true\<close>

text \<open>
  References in the queue are pairwise different, so are the keys and the references of
  the pending dictionary; no reference is in both; each one points into the store at a
  Message that is not acknowledged; a pending key is the id of its Message; and the
  ids in the store are pairwise different.
\<close>

definition mq_inv :: "MessageQueue \<Rightarrow> bool" where
  "mq_inv s =
     (distinct (queue s)
      \<and> distinct (map fst (pending_ack s))
      \<and> distinct (map snd (pending_ack s))
      \<and> set (queue s) \<inter> snd ` set (pending_ack s) = {}
      \<and> (\<forall>r\<in>set (queue s). r < length (store s) \<and> \<not> acknowledged (store s ! r))
      \<and> (\<forall>e\<in>set (pending_ack s).
            snd e < length (store s) \<and> msg_id (store s ! snd e) = fst e
            \<and> \<not> acknowledged (store s ! snd e))
      \<and> distinct (map msg_id (store s)))"

section \<open>States used as examples\<close>

text \<open>One message enqueued at time 0 and dequeued: it waits for its acknowledgement.\<close>

definition one_pending :: MessageQueue where
  "one_pending = mq_run (MessageQueue_init 10) [Enqueue ''m1'' 0 ''hello'' 0, Dequeue]"

section \<open>Properties of the acknowledged queue\<close>

lemmas mq_defs = mq_run_def enqueue_def dequeue_def acknowledge_def requeue_unacknowledged_def
  put_nowait_def get_timeout_def dict_pop_def MessageQueue_init_def Message_init_def
  Message_acknowledge_def

lemma one_pending_eq:
  "one_pending =
     \<lparr>store = [\<lparr>msg_id = ''m1'', content = ''hello'', priority = 0, timestamp = 0,
                 acknowledged = False\<rparr>],
      queue = [], maxsize = 10, pending_ack = [(''m1'', 0)], ack_timeout = 30\<rparr>"
  by (simp add: one_pending_def mq_defs)

lemma dict_pop_present:
  "k \<in> fst ` set d \<Longrightarrow> \<exists>v. map_of d k = Some v \<and> dict_pop k d = Inr (v, AList.delete k d)"
  by (cases "map_of d k") (auto simp: dict_pop_def map_of_eq_None_iff)

text \<open>
  C8. \<open>acknowledge(id)\<close> returns \<open>True\<close>, removes the pending entry and marks the
  Message acknowledged exactly when \<open>id\<close> is a key of \<open>pending_ack\<close>; otherwise it
  returns \<open>False\<close>, raises nothing and changes nothing. After either outcome the id is
  no longer pending, so a second call with the same id returns \<open>False\<close>.
\<close>

theorem acknowledge_iff_pending:
  "(message_id \<notin> fst ` set (pending_ack s) \<longrightarrow> acknowledge message_id s = (Inr False, s))
   \<and> (message_id \<in> fst ` set (pending_ack s) \<longrightarrow>
        (\<exists>message. map_of (pending_ack s) message_id = Some message
           \<and> acknowledge message_id s =
               (Inr True,
                s\<lparr>pending_ack := AList.delete message_id (pending_ack s),
                  store := (store s)[message := (store s ! message)\<lparr>acknowledged := True\<rparr>]\<rparr>)
           \<and> (message < length (store s) \<longrightarrow>
                acknowledged (store (snd (acknowledge message_id s)) ! message))))
   \<and> message_id \<notin> fst ` set (pending_ack (snd (acknowledge message_id s)))
   \<and> fst (acknowledge message_id (snd (acknowledge message_id s))) = Inr False"
proof -
  have absent: "acknowledge message_id s = (Inr False, s)"
    if "message_id \<notin> fst ` set (pending_ack s)" for s
    using that by (simp add: acknowledge_def)
  have present: "\<exists>message. map_of (pending_ack s) message_id = Some message
           \<and> acknowledge message_id s =
               (Inr True,
                s\<lparr>pending_ack := AList.delete message_id (pending_ack s),
                  store := (store s)[message := (store s ! message)\<lparr>acknowledged := True\<rparr>]\<rparr>)
           \<and> (message < length (store s) \<longrightarrow>
                acknowledged (store (snd (acknowledge message_id s)) ! message))"
    if "message_id \<in> fst ` set (pending_ack s)"
  proof -
    from dict_pop_present [OF that] obtain message where
      m: "map_of (pending_ack s) message_id = Some message"
      and p: "dict_pop message_id (pending_ack s)
                = Inr (message, AList.delete message_id (pending_ack s))"
      by blast
    have a: "acknowledge message_id s =
               (Inr True,
                s\<lparr>pending_ack := AList.delete message_id (pending_ack s),
                  store := (store s)[message := (store s ! message)\<lparr>acknowledged := True\<rparr>]\<rparr>)"
      using that p by (simp add: acknowledge_def Message_acknowledge_def)
    have "message < length (store s) \<longrightarrow>
            acknowledged (store (snd (acknowledge message_id s)) ! message)"
      by (simp add: a)
    with m a show ?thesis by blast
  qed
  have gone: "message_id \<notin> fst ` set (pending_ack (snd (acknowledge message_id s)))"
  proof (cases "message_id \<in> fst ` set (pending_ack s)")
    case True
    with present obtain message where
      "pending_ack (snd (acknowledge message_id s)) = AList.delete message_id (pending_ack s)"
      by auto
    then show ?thesis by (simp add: delete_notin_dom)
  next
    case False
    with absent show ?thesis by simp
  qed
  from absent [OF gone] have twice:
    "fst (acknowledge message_id (snd (acknowledge message_id s))) = Inr False" by simp
  show ?thesis using absent present gone twice by blast
qed

theorem acknowledge_iff_pending_witness:
  "fst (acknowledge ''m1'' one_pending) = Inr True
   \<and> acknowledged (store (snd (acknowledge ''m1'' one_pending)) ! 0)
   \<and> pending_ack (snd (acknowledge ''m1'' one_pending)) = []
   \<and> acknowledge ''m2'' one_pending = (Inr False, one_pending)
   \<and> fst (acknowledge ''m1'' (snd (acknowledge ''m1'' one_pending))) = Inr False"
proof -
  have present: "''m1'' \<in> fst ` set (pending_ack one_pending)"
    and absent: "''m2'' \<notin> fst ` set (pending_ack one_pending)"
    and m: "map_of (pending_ack one_pending) ''m1'' = Some 0"
    and len: "0 < length (store one_pending)"
    and del: "AList.delete ''m1'' (pending_ack one_pending) = []"
    by (simp_all add: one_pending_eq)
  from acknowledge_iff_pending [of "''m1''" one_pending] present m len
  have a: "acknowledge ''m1'' one_pending =
             (Inr True,
              one_pending\<lparr>pending_ack := AList.delete ''m1'' (pending_ack one_pending),
                store := (store one_pending)
                  [0 := (store one_pending ! 0)\<lparr>acknowledged := True\<rparr>]\<rparr>)"
    and b: "acknowledged (store (snd (acknowledge ''m1'' one_pending)) ! 0)"
    and c: "fst (acknowledge ''m1'' (snd (acknowledge ''m1'' one_pending))) = Inr False"
    by auto
  from acknowledge_iff_pending [of "''m2''" one_pending] absent
  have d: "acknowledge ''m2'' one_pending = (Inr False, one_pending)"
    by blast
  show ?thesis using a b c d del by simp
qed

text \<open>
  C1, as stated: at capacity the caller is signalled \<open>QueueFull\<close> and no envelope is
  created. With capacity 1 and one message queued, the second \<open>enqueue\<close> does neither:
  it returns a Message like any other call, and the store has grown by that Message.
\<close>

theorem enqueue_at_capacity_counterexample:
  "\<not> (fst (enqueue ''m2'' 1 ''x'' 0 (snd (enqueue ''m1'' 0 ''hello'' 0 (MessageQueue_init 1))))
        = Inl Queue_Full
      \<and> store (snd (enqueue ''m2'' 1 ''x'' 0 (snd (enqueue ''m1'' 0 ''hello'' 0 (MessageQueue_init 1)))))
        = store (snd (enqueue ''m1'' 0 ''hello'' 0 (MessageQueue_init 1))))"
  by (simp add: mq_defs)

text \<open>
  C1, amended. \<open>enqueue\<close> never raises and never signals a full queue: it always builds
  the Message and returns it. When the bound is positive and reached, the queue itself
  is left as it was (its size does not grow); otherwise the new Message is appended at
  the tail.
\<close>

theorem enqueue_returns_message:
  "enqueue uuid now c p s =
     (Inr (length (store s)),
      (if 0 < maxsize s \<and> maxsize s \<le> int (length (queue s))
       then s\<lparr>store := store s @ [Message_init uuid now c p]\<rparr>
       else s\<lparr>store := store s @ [Message_init uuid now c p],
              queue := queue s @ [length (store s)]\<rparr>))"
  by (simp add: enqueue_def put_nowait_def Let_def)

end
